theory Spec2Isabelle
  imports Main
begin

section \<open>The security service (src/services/security/app.py)\<close>

text \<open>
  The service keeps three process-wide tables (\<open>users_db\<close>, \<open>security_logs\<close>,
  \<open>custom_protocols\<close>) and answers HTTP requests. Each handler is embedded as a function
  from the request and the tables to the response and the updated tables.

  Conventions of the embedding:
  \<^item> Text is \<open>string\<close>. It is taken to be ASCII, for which \<open>encode('utf-8')\<close> and
    \<open>decode('utf-8')\<close> are the identity and \<open>len\<close> counts characters.
  \<^item> A \<open>datetime\<close> is an \<open>int\<close>, the number of microseconds since the epoch (the
    resolution of \<open>datetime.utcnow()\<close>). The source stores \<open>isoformat()\<close> of it; the
    model stores the instant. One request reads the clock once (\<open>now\<close>).
  \<^item> The fields of a JSON request body have the types the interface gives them; a field
    that is absent is \<open>None\<close>, and the handler's default applies. The password is kept
    as a JSON value (\<open>jvalue\<close>): what the handlers do with it depends on its type.
  \<^item> Every handler body is wrapped in \<open>except Exception\<close>, which answers 500 with
    \<open>str(e)\<close>. On bodies of these types the calls that can raise are \<open>.encode\<close> on the
    password, the two bcrypt functions and Fernet's \<open>decrypt\<close>; each has its 500 branch.
  \<^item> bcrypt, PyJWT and Fernet are third-party libraries. Their functions are fields of
    the record \<open>env\<close>, next to the two secrets drawn at start-up; what a theorem needs of
    them is one of its hypotheses.
\<close>

subsection \<open>Data\<close>

datatype event_type =
  login_attempt | login_success | login_failure
  | unauthorized_access | encryption_operation | custom_protocol_usage

datatype detail = DStr string | DInt int | DBool bool

record event =
  e_timestamp :: int
  e_event_type :: event_type
  e_user_id :: "string option"
  e_details :: "(string \<times> detail) list"
  e_source_ip :: "string option"

record user =
  u_username :: string
  u_password_hash :: string
  u_email :: string
  u_created_at :: int
  u_is_active :: bool

record protocol =
  p_id :: string
  p_name :: string
  p_encryption_algorithm :: string
  p_key_length :: int
  p_authentication_method :: string
  p_bypass_security :: bool
  p_user_id :: string
  p_created_at :: int

record state =
  users_db :: "string \<rightharpoonup> user"
  security_logs :: "event list"
  custom_protocols :: "string \<rightharpoonup> protocol"

text \<open>The claim set of a token: \<open>exp\<close> and \<open>iat\<close> are whole seconds (JWT NumericDate).\<close>

record payload =
  c_user_id :: string
  c_exp :: int
  c_iat :: int

text \<open>
  The exceptions the handlers can meet. \<open>AttributeError\<close> is raised by \<open>.encode\<close> on a value
  that is not a \<open>str\<close>, \<open>UnicodeEncodeError\<close> by \<open>.encode('utf-8')\<close> on a \<open>str\<close> that holds a
  lone surrogate; a \<open>ValueError\<close> comes from bcrypt and carries its message.
\<close>

datatype exception = AttributeError | UnicodeEncodeError | ValueError string

text \<open>
  The password of a request body is kept as the JSON value it is, since the handlers
  test it for truth and call \<open>.encode('utf-8')\<close> on it: \<open>Str s\<close> is a \<open>str\<close> of ASCII
  characters, \<open>Surrogate\<close> is the one-character \<open>str\<close> that the JSON escape of U+D800 parses
  to, and \<open>Num n\<close> is a JSON integer.
\<close>

datatype jvalue = Str string | Surrogate | Num int

record env =
  JWT_SECRET :: string
  ENCRYPTION_KEY :: string
  bcrypt_hashpw :: "string \<Rightarrow> string \<Rightarrow> exception + string"
  bcrypt_checkpw :: "string \<Rightarrow> string \<Rightarrow> exception + bool"
  hs256 :: "string \<Rightarrow> payload \<Rightarrow> string"
  jwt_join :: "payload \<Rightarrow> string \<Rightarrow> string"
  jwt_split :: "string \<Rightarrow> (payload \<times> string) option"
  fernet_encrypt :: "string \<Rightarrow> int \<Rightarrow> string \<Rightarrow> string \<Rightarrow> string"
  fernet_decrypt :: "string \<Rightarrow> string \<Rightarrow> string option"

text \<open>
  \<open>bcrypt_hashpw password salt\<close>, \<open>bcrypt_checkpw password hash\<close>, each \<open>Inl\<close> the
  exception where bcrypt raises;
  \<open>hs256 key payload\<close> is the HMAC-SHA256 signature; \<open>jwt_join payload signature\<close> is the
  compact serialisation and \<open>jwt_split\<close> parses it (\<open>None\<close>: malformed);
  \<open>fernet_encrypt key time iv data\<close>; \<open>fernet_decrypt key token\<close> is \<open>None\<close> where Fernet
  raises \<open>InvalidToken\<close>.
\<close>

record request =
  authorization :: "string option"
  remote_addr :: "string option"
  now :: int
  gensalt :: string
  urandom :: string
  j_username :: "string option"
  j_password :: "jvalue option"
  j_email :: "string option"
  j_data :: "string option"
  j_name :: "string option"
  j_encryption_algorithm :: "string option"
  j_key_length :: "int option"
  j_authentication_method :: "string option"
  j_bypass_security :: "bool option"

text \<open>
  A response is \<open>(jsonify(dict), status)\<close>; the dict keeps its keys in the order the
  source writes them. Nested protocol and event dicts are carried as their records.
\<close>

datatype val =
  JStr string | JInt int | JBool bool
  | JObj "(string \<times> val) list"
  | JProtocol protocol | JEvents "event list"

type_synonym response = "(string \<times> val) list \<times> nat"

subsection \<open>String helpers\<close>

definition get_or :: "'a option \<Rightarrow> 'a \<Rightarrow> 'a" where
  "get_or v d = (case v of None \<Rightarrow> d | Some x \<Rightarrow> x)"

definition startswith :: "string \<Rightarrow> string \<Rightarrow> bool" where
  "startswith s p = (take (length p) s = p)"

definition replace_char :: "char \<Rightarrow> char \<Rightarrow> string \<Rightarrow> string" where
  "replace_char a b s = map (\<lambda>c. if c = a then b else c) s"

definition lower_char :: "char \<Rightarrow> char" where
  "lower_char c =
     (if 65 \<le> (of_char c :: nat) \<and> (of_char c :: nat) \<le> 90
      then char_of ((of_char c :: nat) + 32) else c)"

definition lower :: "string \<Rightarrow> string" where
  "lower s = map lower_char s"

fun str_nat :: "nat \<Rightarrow> string" where
  "str_nat n =
     (if n < 10 then [char_of (48 + n)]
      else str_nat (n div 10) @ [char_of (48 + n mod 10)])"

declare str_nat.simps [simp del]

definition str_int :: "int \<Rightarrow> string" where
  "str_int i = (if i < 0 then CHR ''-'' # str_nat (nat (- i)) else str_nat (nat i))"

text \<open>Truth of a password value (\<open>not password\<close> is its negation), and \<open>password.encode('utf-8')\<close>.\<close>

definition truthy :: "jvalue \<Rightarrow> bool" where
  "truthy v = (case v of Str s \<Rightarrow> s \<noteq> [] | Surrogate \<Rightarrow> True | Num n \<Rightarrow> n \<noteq> 0)"

definition encode_utf8 :: "jvalue \<Rightarrow> exception + string" where
  "encode_utf8 v =
     (case v of
        Str s \<Rightarrow> Inr s
      | Surrogate \<Rightarrow> Inl UnicodeEncodeError
      | Num n \<Rightarrow> Inl AttributeError)"

text \<open>\<open>str(e)\<close>, the message that the handlers put into a 500 answer.\<close>

definition str_exception :: "exception \<Rightarrow> string" where
  "str_exception e =
     (case e of
        AttributeError \<Rightarrow>
          [CHR 0x27] @ ''int'' @ [CHR 0x27] @ '' object has no attribute ''
            @ [CHR 0x27] @ ''encode'' @ [CHR 0x27]
      | UnicodeEncodeError \<Rightarrow>
          [CHR 0x27] @ ''utf-8'' @ [CHR 0x27] @ '' codec can'' @ [CHR 0x27]
            @ ''t encode character '' @ [CHR 0x27, CHR 0x5C] @ ''ud800'' @ [CHR 0x27]
            @ '' in position 0: surrogates not allowed''
      | ValueError msg \<Rightarrow> msg)"

subsection \<open>Audit log\<close>

definition log_security_event ::
  "request \<Rightarrow> event_type \<Rightarrow> string option \<Rightarrow> (string \<times> detail) list \<Rightarrow> state \<Rightarrow> state" where
  "log_security_event rq et uid det st =
     st\<lparr>security_logs := security_logs st @
        [\<lparr>e_timestamp = now rq, e_event_type = et, e_user_id = uid,
          e_details = det, e_source_ip = remote_addr rq\<rparr>]\<rparr>"

definition get_security_logs :: "string \<Rightarrow> request \<Rightarrow> state \<Rightarrow> response \<times> state" where
  "get_security_logs uid rq st =
     (let user_logs = filter (\<lambda>log. e_user_id log = Some uid) (security_logs st)
      in (([(''user_id'', JStr uid),
            (''security_logs'', JEvents user_logs),
            (''log_count'', JInt (int (length user_logs))),
            (''status'', JStr ''success'')], 200), st))"

subsection \<open>Credentials and tokens\<close>

definition error_response :: "string \<Rightarrow> nat \<Rightarrow> response" where
  "error_response msg code = ([(''error'', JStr msg)], code)"

text \<open>
  \<open>user and bcrypt.checkpw(password.encode('utf-8'), user['password_hash'])\<close>: the
  password is encoded and checked only when the user exists, and either call may raise.
\<close>

definition authenticate_user ::
  "env \<Rightarrow> state \<Rightarrow> string \<Rightarrow> jvalue \<Rightarrow> exception + user option" where
  "authenticate_user E st username password =
     (case users_db st username of
        None \<Rightarrow> Inr None
      | Some user \<Rightarrow>
          (case encode_utf8 password of
             Inl e \<Rightarrow> Inl e
           | Inr bytes \<Rightarrow>
               (case bcrypt_checkpw E bytes (u_password_hash user) of
                  Inl e \<Rightarrow> Inl e
                | Inr ok \<Rightarrow> Inr (if ok then Some user else None))))"

text \<open>
  PyJWT. \<open>jwt.encode\<close> turns a \<open>datetime\<close> claim into whole seconds
  (\<open>timegm(utctimetuple())\<close>, which drops the microseconds) and signs. \<open>jwt.decode\<close>
  parses, checks the signature, then the claims: a token whose \<open>iat\<close> lies in the future
  is immature, one whose \<open>exp\<close> is not after the clock is expired. The clock of the check
  is compared in seconds: \<open>exp \<le> now\<close> for \<open>exp\<close> in seconds and \<open>now\<close> in microseconds
  is \<open>exp * 1000000 \<le> now\<close>. Every error of \<open>jwt.decode\<close> is an \<open>InvalidTokenError\<close>;
  \<open>ExpiredSignatureError\<close> is the subclass the source names.
\<close>

datatype jwt_error =
  DecodeError | InvalidSignatureError | ImmatureSignatureError | ExpiredSignatureError

definition timegm :: "int \<Rightarrow> int" where
  "timegm t = t div 1000000"

definition hours :: "int \<Rightarrow> int" where
  "hours h = h * 3600 * 1000000"

definition jwt_encode :: "env \<Rightarrow> payload \<Rightarrow> string \<Rightarrow> string" where
  "jwt_encode E pl key = jwt_join E pl (hs256 E key pl)"

definition jwt_decode :: "env \<Rightarrow> int \<Rightarrow> string \<Rightarrow> string \<Rightarrow> jwt_error + payload" where
  "jwt_decode E t token key =
     (case jwt_split E token of
        None \<Rightarrow> Inl DecodeError
      | Some (pl, sg) \<Rightarrow>
          if sg \<noteq> hs256 E key pl then Inl InvalidSignatureError
          else if t < c_iat pl * 1000000 then Inl ImmatureSignatureError
          else if c_exp pl * 1000000 \<le> t then Inl ExpiredSignatureError
          else Inr pl)"

definition generate_jwt_token :: "env \<Rightarrow> int \<Rightarrow> string \<Rightarrow> string" where
  "generate_jwt_token E t user_id =
     jwt_encode E
       \<lparr>c_user_id = user_id, c_exp = timegm (t + hours 24), c_iat = timegm t\<rparr>
       (JWT_SECRET E)"

definition verify_jwt_token :: "env \<Rightarrow> int \<Rightarrow> string \<Rightarrow> string option" where
  "verify_jwt_token E t token =
     (case jwt_decode E t token (JWT_SECRET E) of
        Inr pl \<Rightarrow> Some (c_user_id pl)
      | Inl ExpiredSignatureError \<Rightarrow> None
      | Inl _ \<Rightarrow> None)"

text \<open>
  The claim set that \<open>generate_jwt_token\<close> signs at time \<open>t\<close>, and what the theorems
  ask of the library's serialisation: parsing the token made from a claim set gives that
  claim set and its signature back.
\<close>

definition issued :: "int \<Rightarrow> string \<Rightarrow> payload" where
  "issued t user_id = \<lparr>c_user_id = user_id, c_exp = timegm (t + hours 24), c_iat = timegm t\<rparr>"

definition jwt_roundtrip :: "env \<Rightarrow> payload \<Rightarrow> bool" where
  "jwt_roundtrip E pl =
     (jwt_split E (jwt_encode E pl (JWT_SECRET E)) = Some (pl, hs256 E (JWT_SECRET E) pl))"

subsection \<open>The decorator\<close>

text \<open>
  \<open>require_auth f\<close> is the decorated handler. \<open>not token\<close> holds for a missing header and
  for an empty one; \<open>not user_id\<close> holds for \<open>None\<close> and for the empty string.
\<close>

definition require_auth ::
  "env \<Rightarrow> (string \<Rightarrow> request \<Rightarrow> state \<Rightarrow> response \<times> state) \<Rightarrow> request \<Rightarrow> state \<Rightarrow> response \<times> state" where
  "require_auth E f rq st =
     (let token = get_or (authorization rq) '''' in
      if token = [] then
        (error_response ''Authentication required'' 401,
         log_security_event rq unauthorized_access None [(''reason'', DStr ''no_token'')] st)
      else
        let token = (if startswith token ''Bearer '' then drop 7 token else token);
            user_id = get_or (verify_jwt_token E (now rq) token) ''''
        in if user_id = [] then
             (error_response ''Invalid token'' 401,
              log_security_event rq unauthorized_access None
                [(''reason'', DStr ''invalid_token'')] st)
           else f user_id rq st)"

subsection \<open>Handlers\<close>

definition register :: "env \<Rightarrow> request \<Rightarrow> state \<Rightarrow> response \<times> state" where
  "register E rq st =
     (let username = get_or (j_username rq) '''';
          password = get_or (j_password rq) (Str '''');
          email = get_or (j_email rq) ''''
      in if username = [] \<or> \<not> truthy password \<or> email = [] then
           (error_response ''Username, password, and email are required'' 400, st)
         else if users_db st username \<noteq> None then
           (error_response ''Username already exists'' 409, st)
         else
           case encode_utf8 password of
             Inl e \<Rightarrow> (error_response (str_exception e) 500, st)
           | Inr bytes \<Rightarrow>
               (case bcrypt_hashpw E bytes (gensalt rq) of
                  Inl e \<Rightarrow> (error_response (str_exception e) 500, st)
                | Inr password_hash \<Rightarrow>
                    let user = \<lparr>u_username = username, u_password_hash = password_hash,
                                u_email = email, u_created_at = now rq, u_is_active = True\<rparr>;
                        st1 = st\<lparr>users_db := (users_db st)(username \<mapsto> user)\<rparr>;
                        st2 = log_security_event rq login_success (Some username)
                                [(''action'', DStr ''registration'')] st1
                    in (([(''message'', JStr ''User registered successfully''),
                          (''username'', JStr username),
                          (''status'', JStr ''success'')], 200), st2)))"

definition login :: "env \<Rightarrow> request \<Rightarrow> state \<Rightarrow> response \<times> state" where
  "login E rq st =
     (let username = get_or (j_username rq) '''';
          password = get_or (j_password rq) (Str '''')
      in if username = [] \<or> \<not> truthy password then
           (error_response ''Username and password are required'' 400, st)
         else
           let st1 = log_security_event rq login_attempt (Some username) [] st
           in case authenticate_user E st1 username password of
                Inl e \<Rightarrow> (error_response (str_exception e) 500, st1)
              | Inr None \<Rightarrow>
                  (error_response ''Invalid credentials'' 401,
                   log_security_event rq login_failure (Some username)
                     [(''reason'', DStr ''invalid_credentials'')] st1)
              | Inr (Some user) \<Rightarrow>
                  if \<not> u_is_active user then
                    (error_response ''Account disabled'' 403,
                     log_security_event rq login_failure (Some username)
                       [(''reason'', DStr ''account_disabled'')] st1)
                  else
                    let token = generate_jwt_token E (now rq) username;
                        st2 = log_security_event rq login_success (Some username) [] st1
                    in (([(''message'', JStr ''Login successful''),
                          (''token'', JStr token),
                          (''user'', JObj [(''username'', JStr username),
                                           (''email'', JStr (u_email user))]),
                          (''status'', JStr ''success'')], 200), st2))"

definition encrypt_data :: "env \<Rightarrow> string \<Rightarrow> request \<Rightarrow> state \<Rightarrow> response \<times> state" where
  "encrypt_data E user_id rq st =
     (let plaintext = get_or (j_data rq) ''''
      in if plaintext = [] then
           (error_response ''Data to encrypt is required'' 400, st)
         else
           let encrypted_data =
                 fernet_encrypt E (ENCRYPTION_KEY E) (now rq) (urandom rq) plaintext;
               st1 = log_security_event rq encryption_operation (Some user_id)
                       [(''operation'', DStr ''encrypt''),
                        (''data_length'', DInt (int (length plaintext)))] st
           in (([(''encrypted_data'', JStr encrypted_data),
                 (''encryption_key'', JStr (ENCRYPTION_KEY E)),
                 (''status'', JStr ''success'')], 200), st1))"

text \<open>
  \<open>fernet.decrypt\<close> raises \<open>InvalidToken\<close> on a token it does not accept; the handler's
  \<open>except Exception\<close> answers 500 with \<open>str(e)\<close>, which is empty for that exception.
\<close>

definition decrypt_data :: "env \<Rightarrow> string \<Rightarrow> request \<Rightarrow> state \<Rightarrow> response \<times> state" where
  "decrypt_data E user_id rq st =
     (let encrypted_data = get_or (j_data rq) ''''
      in if encrypted_data = [] then
           (error_response ''Encrypted data is required'' 400, st)
         else
           case fernet_decrypt E (ENCRYPTION_KEY E) encrypted_data of
             None \<Rightarrow> (error_response '''' 500, st)
           | Some decrypted_data \<Rightarrow>
               let st1 = log_security_event rq encryption_operation (Some user_id)
                           [(''operation'', DStr ''decrypt''),
                            (''data_length'', DInt (int (length decrypted_data)))] st
               in (([(''decrypted_data'', JStr decrypted_data),
                     (''status'', JStr ''success'')], 200), st1))"

definition protocol_id_of :: "string \<Rightarrow> string \<Rightarrow> string" where
  "protocol_id_of user_id protocol_name =
     user_id @ ''_'' @ lower (replace_char (CHR '' '') (CHR ''_'') protocol_name)"

definition create_custom_protocol :: "string \<Rightarrow> request \<Rightarrow> state \<Rightarrow> response \<times> state" where
  "create_custom_protocol user_id rq st =
     (let protocol_name = get_or (j_name rq) '''';
          encryption_algorithm = get_or (j_encryption_algorithm rq) ''AES'';
          key_length = get_or (j_key_length rq) 256;
          authentication_method = get_or (j_authentication_method rq) ''OAuth 2.0'';
          bypass_security = get_or (j_bypass_security rq) False
      in if protocol_name = [] then
           (error_response ''Protocol name is required'' 400, st)
         else
           let protocol_id = protocol_id_of user_id protocol_name;
               protocol = \<lparr>p_id = protocol_id, p_name = protocol_name,
                           p_encryption_algorithm = encryption_algorithm,
                           p_key_length = key_length,
                           p_authentication_method = authentication_method,
                           p_bypass_security = bypass_security,
                           p_user_id = user_id, p_created_at = now rq\<rparr>;
               st1 = st\<lparr>custom_protocols := (custom_protocols st)(protocol_id \<mapsto> protocol)\<rparr>;
               st2 = log_security_event rq custom_protocol_usage (Some user_id)
                       [(''protocol_id'', DStr protocol_id),
                        (''action'', DStr ''create''),
                        (''bypass_security'', DBool bypass_security)] st1
           in (([(''protocol_id'', JStr protocol_id),
                 (''protocol'', JProtocol protocol),
                 (''status'', JStr ''success'')], 200), st2))"

definition apply_custom_protocol ::
  "string \<Rightarrow> string \<Rightarrow> request \<Rightarrow> state \<Rightarrow> response \<times> state" where
  "apply_custom_protocol user_id protocol_id rq st =
     (case custom_protocols st protocol_id of
        None \<Rightarrow> (error_response ''Protocol not found'' 404, st)
      | Some protocol \<Rightarrow>
          if p_user_id protocol \<noteq> user_id then
            (error_response ''Access denied'' 403, st)
          else
            let target_data = get_or (j_data rq) ''''
            in if target_data = [] then
                 (error_response ''Data to secure is required'' 400, st)
               else
                 let secured_data =
                       ''Secured '' @ target_data @ '' with ''
                       @ p_encryption_algorithm protocol @ '', ''
                       @ str_int (p_key_length protocol) @ ''-bit key, and ''
                       @ p_authentication_method protocol @ '' authentication.'';
                     st1 = log_security_event rq custom_protocol_usage (Some user_id)
                             [(''protocol_id'', DStr protocol_id),
                              (''action'', DStr ''apply''),
                              (''data_length'', DInt (int (length target_data)))] st
                 in (([(''protocol_id'', JStr protocol_id),
                       (''secured_data'', JStr secured_data),
                       (''protocol_details'', JProtocol protocol),
                       (''status'', JStr ''success'')], 200), st1))"

subsection \<open>Registration under concurrent requests\<close>

text \<open>
  The module holds no lock, and \<open>app.run\<close> serves every request in a thread of its own,
  so two \<open>register\<close> calls may overlap. The handler reads \<open>users_db\<close> once, in the
  membership test \<open>username in users_db\<close>, and writes it once, in the assignment
  \<open>users_db[username] = user\<close>; the password is hashed between the two. A call is
  therefore run in two atomic steps: \<open>register_check\<close> is the handler up to and including
  the membership test, \<open>register_insert\<close> is the rest of it. A schedule names, step by
  step, the call that runs next; \<open>run\<close> folds it over the calls, all at \<open>Start\<close>.
\<close>

definition register_check :: "request \<Rightarrow> state \<Rightarrow> response option" where
  "register_check rq st =
     (let username = get_or (j_username rq) '''';
          password = get_or (j_password rq) (Str '''');
          email = get_or (j_email rq) ''''
      in if username = [] \<or> \<not> truthy password \<or> email = [] then
           Some (error_response ''Username, password, and email are required'' 400)
         else if users_db st username \<noteq> None then
           Some (error_response ''Username already exists'' 409)
         else None)"

definition register_insert :: "env \<Rightarrow> request \<Rightarrow> state \<Rightarrow> response \<times> state" where
  "register_insert E rq st =
     (let username = get_or (j_username rq) '''';
          password = get_or (j_password rq) (Str '''');
          email = get_or (j_email rq) ''''
      in case encode_utf8 password of
           Inl e \<Rightarrow> (error_response (str_exception e) 500, st)
         | Inr bytes \<Rightarrow>
             (case bcrypt_hashpw E bytes (gensalt rq) of
                Inl e \<Rightarrow> (error_response (str_exception e) 500, st)
              | Inr password_hash \<Rightarrow>
                  let user = \<lparr>u_username = username, u_password_hash = password_hash,
                              u_email = email, u_created_at = now rq, u_is_active = True\<rparr>;
                      st1 = st\<lparr>users_db := (users_db st)(username \<mapsto> user)\<rparr>;
                      st2 = log_security_event rq login_success (Some username)
                              [(''action'', DStr ''registration'')] st1
                  in (([(''message'', JStr ''User registered successfully''),
                        (''username'', JStr username),
                        (''status'', JStr ''success'')], 200), st2)))"

text \<open>Where a call stands: not started, past the membership test, or answered.\<close>

datatype call = Start | Passed | Finished response

definition step :: "env \<Rightarrow> request list \<Rightarrow> nat \<Rightarrow> call list \<times> state \<Rightarrow> call list \<times> state" where
  "step E rqs i cfg =
     (let cs = fst cfg; st = snd cfg
      in if i < length cs \<and> i < length rqs then
           (case cs ! i of
              Start \<Rightarrow>
                (case register_check (rqs ! i) st of
                   Some r \<Rightarrow> (cs[i := Finished r], st)
                 | None \<Rightarrow> (cs[i := Passed], st))
            | Passed \<Rightarrow>
                (cs[i := Finished (fst (register_insert E (rqs ! i) st))],
                 snd (register_insert E (rqs ! i) st))
            | Finished r \<Rightarrow> (cs, st))
         else (cs, st))"

definition run :: "env \<Rightarrow> request list \<Rightarrow> nat list \<Rightarrow> state \<Rightarrow> call list \<times> state" where
  "run E rqs schedule st = fold (step E rqs) schedule (replicate (length rqs) Start, st)"

text \<open>The schedule in which every call finishes before the next one starts.\<close>

definition one_at_a_time :: "nat \<Rightarrow> nat list" where
  "one_at_a_time n = concat (map (\<lambda>i. [i, i]) [0..<n])"

text \<open>The answer to a successful registration, and a request that registers a name: its
  fields are there, its password is an encodable string, and bcrypt hashes it.\<close>

definition registered :: "string \<Rightarrow> response" where
  "registered username =
     ([(''message'', JStr ''User registered successfully''),
       (''username'', JStr username),
       (''status'', JStr ''success'')], 200)"

definition registers :: "env \<Rightarrow> string \<Rightarrow> request \<Rightarrow> bool" where
  "registers E u rq \<longleftrightarrow>
     j_username rq = Some u \<and> u \<noteq> [] \<and> get_or (j_email rq) [] \<noteq> []
     \<and> (case get_or (j_password rq) (Str []) of
           Str s \<Rightarrow>
             s \<noteq> [] \<and> (case bcrypt_hashpw E s (gensalt rq) of Inl e \<Rightarrow> False | Inr h \<Rightarrow> True)
         | Surrogate \<Rightarrow> False
         | Num n \<Rightarrow> False)"

subsection \<open>A concrete instance\<close>

text \<open>
  A small environment, request and state on which the model is run. The library
  functions are simple stand-ins: the only well-formed tokens are the one issued to
  \<open>alice\<close> at half a second past the epoch, a copy of it with a forged signature, and
  the one issued at that time to the empty user id.
\<close>

definition demo_env :: env where
  "demo_env =
     \<lparr>JWT_SECRET = ''jwt-secret'', ENCRYPTION_KEY = ''fernet-key'',
      bcrypt_hashpw = (\<lambda>password salt. Inr (salt @ password)),
      bcrypt_checkpw = (\<lambda>password hash. Inr (drop 2 hash = password)),
      hs256 = (\<lambda>key pl. key @ '':'' @ c_user_id pl),
      jwt_join = (\<lambda>pl sg. c_user_id pl @ ''.'' @ sg),
      jwt_split = (\<lambda>token.
         if token = ''alice.jwt-secret:alice''
         then Some (\<lparr>c_user_id = ''alice'', c_exp = 86400, c_iat = 0\<rparr>, ''jwt-secret:alice'')
         else if token = ''alice.forged''
         then Some (\<lparr>c_user_id = ''alice'', c_exp = 86400, c_iat = 0\<rparr>, ''forged'')
         else if token = ''.jwt-secret:''
         then Some (\<lparr>c_user_id = [], c_exp = 86400, c_iat = 0\<rparr>, ''jwt-secret:'')
         else None),
      fernet_encrypt = (\<lambda>key t iv data. iv @ rev data),
      fernet_decrypt = (\<lambda>key token.
         if length token < 2 then None else Some (rev (drop 2 token)))\<rparr>"

definition demo_request :: request where
  "demo_request =
     \<lparr>authorization = None, remote_addr = Some ''127.0.0.1'', now = 500000,
      gensalt = ''$$'', urandom = ''iv'',
      j_username = None, j_password = None, j_email = None, j_data = None,
      j_name = None, j_encryption_algorithm = None, j_key_length = None,
      j_authentication_method = None, j_bypass_security = None\<rparr>"

definition demo_state :: state where
  "demo_state = \<lparr>users_db = Map.empty, security_logs = [], custom_protocols = Map.empty\<rparr>"

definition alice_register :: request where
  "alice_register =
     demo_request\<lparr>j_username := Some ''alice'', j_password := Some (Str ''Secr3t!''),
                   j_email := Some ''a@x.com''\<rparr>"

definition alice_again :: request where
  "alice_again =
     demo_request\<lparr>j_username := Some ''alice'', j_password := Some (Str ''0ther!''),
                   j_email := Some ''b@y.org''\<rparr>"

definition state_alice :: state where
  "state_alice = snd (register demo_env alice_register demo_state)"

definition vault_request :: request where
  "vault_request = demo_request\<lparr>j_name := Some ''Vault One''\<rparr>"

definition state_vault :: state where
  "state_vault = snd (create_custom_protocol ''alice'' vault_request state_alice)"

text \<open>The state after a failed login: the attempt and the failure are logged.\<close>

definition login_failed :: "request \<Rightarrow> string \<Rightarrow> string \<Rightarrow> state \<Rightarrow> state" where
  "login_failed rq u reason st =
     log_security_event rq login_failure (Some u) [(''reason'', DStr reason)]
       (log_security_event rq login_attempt (Some u) [] st)"

definition user_alice :: user where
  "user_alice =
     \<lparr>u_username = ''alice'', u_password_hash = ''$$Secr3t!'', u_email = ''a@x.com'',
      u_created_at = 500000, u_is_active = True\<rparr>"

definition login_request :: "string \<Rightarrow> jvalue \<Rightarrow> request" where
  "login_request u pw = demo_request\<lparr>j_username := Some u, j_password := Some pw\<rparr>"

section \<open>Properties\<close>

subsection \<open>Password values\<close>

lemma truthy_simps [simp]:
  "truthy (Str s) \<longleftrightarrow> s \<noteq> []"
  "truthy Surrogate"
  "truthy (Num n) \<longleftrightarrow> n \<noteq> 0"
  by (simp_all add: truthy_def)

lemma encode_utf8_simps [simp]:
  "encode_utf8 (Str s) = Inr s"
  "encode_utf8 Surrogate = Inl UnicodeEncodeError"
  "encode_utf8 (Num n) = Inl AttributeError"
  by (simp_all add: encode_utf8_def)

subsection \<open>Protocol ids\<close>

lemma protocol_id_a_b_c: "protocol_id_of ''a'' ''b c'' = ''a_b_c''"
  by code_simp

lemma protocol_id_a_b_c': "protocol_id_of ''a_b'' ''c'' = ''a_b_c''"
  by code_simp

lemma protocol_id_vault: "protocol_id_of ''alice'' ''Vault One'' = ''alice_vault_one''"
  by code_simp

lemma str_int_256: "str_int 256 = ''256''"
  by code_simp

text \<open>
  C10. The id is the owner, an underscore and the normalised name, so owner \<open>a\<close> with
  name \<open>b c\<close> and owner \<open>a_b\<close> with name \<open>c\<close> get the same id \<open>a_b_c\<close>. After \<open>a\<close>
  creates the first and \<open>a_b\<close> the second, the registry holds the record of \<open>a_b\<close> under
  that id, and \<open>a\<close>, who could apply the protocol before, is refused with 403.
\<close>

theorem protocol_id_collision:
  "protocol_id_of ''a'' ''b c'' = protocol_id_of ''a_b'' ''c''
   \<and> (let st1 = snd (create_custom_protocol ''a'' (rq1\<lparr>j_name := Some ''b c''\<rparr>) st);
          st2 = snd (create_custom_protocol ''a_b'' (rq2\<lparr>j_name := Some ''c''\<rparr>) st1)
      in map_option p_user_id (custom_protocols st1 ''a_b_c'') = Some ''a''
         \<and> map_option p_name (custom_protocols st1 ''a_b_c'') = Some ''b c''
         \<and> snd (fst (apply_custom_protocol ''a'' ''a_b_c'' (rq3\<lparr>j_data := Some ''x''\<rparr>) st1)) = 200
         \<and> map_option p_user_id (custom_protocols st2 ''a_b_c'') = Some ''a_b''
         \<and> map_option p_name (custom_protocols st2 ''a_b_c'') = Some ''c''
         \<and> fst (apply_custom_protocol ''a'' ''a_b_c'' (rq3\<lparr>j_data := Some ''x''\<rparr>) st2)
             = error_response ''Access denied'' 403)"
  by (simp add: protocol_id_a_b_c protocol_id_a_b_c' create_custom_protocol_def
      apply_custom_protocol_def Let_def get_or_def log_security_event_def error_response_def)

subsection \<open>Audit log\<close>

text \<open>
  C9. The security-logs handler returns exactly the events of the log whose user id is
  the caller's, in the order of the log, and leaves the tables as they were. The log
  grows at its end only, so a later event comes later in the answer: after one more
  event is logged, the answer is the earlier answer followed by that event if it is
  the caller's.
\<close>

theorem get_security_logs_filter:
  "get_security_logs uid rq st =
     (([(''user_id'', JStr uid),
        (''security_logs'', JEvents (filter (\<lambda>e. e_user_id e = Some uid) (security_logs st))),
        (''log_count'',
           JInt (int (length (filter (\<lambda>e. e_user_id e = Some uid) (security_logs st))))),
        (''status'', JStr ''success'')], 200), st)
   \<and> filter (\<lambda>e. e_user_id e = Some uid)
        (security_logs (log_security_event rq' et u det st)) =
       filter (\<lambda>e. e_user_id e = Some uid) (security_logs st) @
       (if u = Some uid
        then [\<lparr>e_timestamp = now rq', e_event_type = et, e_user_id = u,
               e_details = det, e_source_ip = remote_addr rq'\<rparr>]
        else [])"
  by (simp add: get_security_logs_def log_security_event_def Let_def)

subsection \<open>Encryption\<close>

text \<open>
  C1. The encrypt handler, called for an authenticated user with the data \<open>hello\<close>,
  answers with three fields: the ciphertext, the process-wide encryption key itself, and
  the status.
\<close>

theorem encrypt_data_returns_key:
  "fst (encrypt_data E uid (rq\<lparr>j_data := Some ''hello''\<rparr>) st) =
     ([(''encrypted_data'',
          JStr (fernet_encrypt E (ENCRYPTION_KEY E) (now rq) (urandom rq) ''hello'')),
       (''encryption_key'', JStr (ENCRYPTION_KEY E)),
       (''status'', JStr ''success'')], 200)"
  by (simp add: encrypt_data_def Let_def get_or_def)

text \<open>
  C5, as stated, fails: the encrypt handler refuses empty plaintext with 400.
\<close>

theorem encrypt_empty_counterexample:
  "encrypt_data demo_env ''alice'' (demo_request\<lparr>j_data := Some []\<rparr>) state_alice
     = (error_response ''Data to encrypt is required'' 400, state_alice)"
  by (simp add: encrypt_data_def get_or_def)

text \<open>
  C5, amended. For non-empty text \<open>p\<close>, where Fernet returns a non-empty token \<open>c\<close> for
  \<open>p\<close> and decrypts \<open>c\<close> back to \<open>p\<close> under the process key, the encrypt handler answers
  with \<open>c\<close> and the decrypt handler, given \<open>c\<close>, answers with exactly \<open>p\<close>. Missing or
  empty plaintext is refused by the encrypt handler with 400.
\<close>

theorem decrypt_encrypt_roundtrip:
  "(j_data rq = Some p \<and> p \<noteq> []
     \<and> fernet_encrypt E (ENCRYPTION_KEY E) (now rq) (urandom rq) p = c \<and> c \<noteq> []
     \<and> fernet_decrypt E (ENCRYPTION_KEY E) c = Some p \<longrightarrow>
       map_of (fst (fst (encrypt_data E uid rq st))) ''encrypted_data'' = Some (JStr c)
       \<and> fst (decrypt_data E uid' (rq'\<lparr>j_data := Some c\<rparr>) st') =
           ([(''decrypted_data'', JStr p), (''status'', JStr ''success'')], 200))
   \<and> (j_data rq = None \<or> j_data rq = Some [] \<longrightarrow>
       encrypt_data E uid rq st = (error_response ''Data to encrypt is required'' 400, st))"
  by (auto simp add: encrypt_data_def decrypt_data_def Let_def get_or_def)

theorem decrypt_encrypt_roundtrip_witness:
  "map_of (fst (fst (encrypt_data demo_env ''alice'' (demo_request\<lparr>j_data := Some ''hello''\<rparr>)
       state_alice))) ''encrypted_data'' = Some (JStr ''ivolleh'')
   \<and> fst (decrypt_data demo_env ''alice'' (demo_request\<lparr>j_data := Some ''ivolleh''\<rparr>) state_alice)
       = ([(''decrypted_data'', JStr ''hello''), (''status'', JStr ''success'')], 200)
   \<and> encrypt_data demo_env ''alice'' demo_request state_alice
       = (error_response ''Data to encrypt is required'' 400, state_alice)"
  using
    decrypt_encrypt_roundtrip [where E = demo_env and uid = "''alice''" and uid' = "''alice''"
      and rq = "demo_request\<lparr>j_data := Some ''hello''\<rparr>" and rq' = demo_request
      and p = "''hello''" and c = "''ivolleh''" and st = state_alice and st' = state_alice]
    decrypt_encrypt_roundtrip [where E = demo_env and uid = "''alice''"
      and rq = demo_request and st = state_alice]
  by (simp add: demo_env_def demo_request_def)


subsection \<open>Protocol registry\<close>

lemma state_vault_protocols:
  "custom_protocols state_vault =
     [''alice_vault_one'' \<mapsto>
        \<lparr>p_id = ''alice_vault_one'', p_name = ''Vault One'', p_encryption_algorithm = ''AES'',
         p_key_length = 256, p_authentication_method = ''OAuth 2.0'',
         p_bypass_security = False, p_user_id = ''alice'', p_created_at = 500000\<rparr>]"
  by (simp add: state_vault_def state_alice_def vault_request_def alice_register_def
      demo_request_def demo_state_def demo_env_def create_custom_protocol_def register_def
      log_security_event_def Let_def get_or_def protocol_id_vault)

text \<open>
  C6, as stated, fails: the owner of a stored protocol who applies it with empty data is
  answered 400, not success.
\<close>

theorem apply_owner_empty_data_counterexample:
  "apply_custom_protocol ''alice'' ''alice_vault_one'' (demo_request\<lparr>j_data := Some []\<rparr>) state_vault
     = (error_response ''Data to secure is required'' 400, state_vault)"
  by (simp add: apply_custom_protocol_def state_vault_protocols get_or_def)

text \<open>
  C6, amended. Applying a protocol answers 404 when the registry has no protocol of that
  id, for every caller and every request. It answers 403 whenever the caller is not the
  owner recorded on the protocol, whatever the stored \<open>bypass_security\<close> flag is. When the
  caller is the owner it succeeds (200, with the secured text, and one audit event) if
  the request carries non-empty data, and answers 400 if the data is missing or empty.
\<close>

theorem apply_custom_protocol_access:
  "(custom_protocols st pid = None \<longrightarrow>
      apply_custom_protocol uid pid rq st = (error_response ''Protocol not found'' 404, st))
   \<and> (custom_protocols st pid = Some p \<and> p_user_id p \<noteq> uid \<longrightarrow>
      apply_custom_protocol uid pid rq st = (error_response ''Access denied'' 403, st))
   \<and> (custom_protocols st pid = Some (p\<lparr>p_bypass_security := b\<rparr>) \<and> p_user_id p \<noteq> uid \<longrightarrow>
      apply_custom_protocol uid pid rq st = (error_response ''Access denied'' 403, st))
   \<and> (custom_protocols st pid = Some p \<and> p_user_id p = uid \<and> j_data rq = Some d \<and> d \<noteq> [] \<longrightarrow>
      apply_custom_protocol uid pid rq st =
        (([(''protocol_id'', JStr pid),
           (''secured_data'', JStr (''Secured '' @ d @ '' with '' @ p_encryption_algorithm p
              @ '', '' @ str_int (p_key_length p) @ ''-bit key, and ''
              @ p_authentication_method p @ '' authentication.'')),
           (''protocol_details'', JProtocol p),
           (''status'', JStr ''success'')], 200),
         log_security_event rq custom_protocol_usage (Some uid)
           [(''protocol_id'', DStr pid), (''action'', DStr ''apply''),
            (''data_length'', DInt (int (length d)))] st))
   \<and> (custom_protocols st pid = Some p \<and> p_user_id p = uid
        \<and> (j_data rq = None \<or> j_data rq = Some []) \<longrightarrow>
      apply_custom_protocol uid pid rq st = (error_response ''Data to secure is required'' 400, st))"
  by (auto simp add: apply_custom_protocol_def get_or_def Let_def)

theorem apply_custom_protocol_access_witness:
  "apply_custom_protocol ''alice'' ''alice_missing'' demo_request state_vault
     = (error_response ''Protocol not found'' 404, state_vault)
   \<and> apply_custom_protocol ''bob'' ''alice_vault_one'' (demo_request\<lparr>j_data := Some ''hello''\<rparr>) state_vault
     = (error_response ''Access denied'' 403, state_vault)
   \<and> fst (apply_custom_protocol ''alice'' ''alice_vault_one'' (demo_request\<lparr>j_data := Some ''hello''\<rparr>) state_vault)
     = ([(''protocol_id'', JStr ''alice_vault_one''),
         (''secured_data'', JStr ''Secured hello with AES, 256-bit key, and OAuth 2.0 authentication.''),
         (''protocol_details'', JProtocol
            \<lparr>p_id = ''alice_vault_one'', p_name = ''Vault One'', p_encryption_algorithm = ''AES'',
             p_key_length = 256, p_authentication_method = ''OAuth 2.0'',
             p_bypass_security = False, p_user_id = ''alice'', p_created_at = 500000\<rparr>),
         (''status'', JStr ''success'')], 200)
   \<and> apply_custom_protocol ''alice'' ''alice_vault_one'' demo_request state_vault
     = (error_response ''Data to secure is required'' 400, state_vault)"
  using
    apply_custom_protocol_access [where st = state_vault and pid = "''alice_missing''"
      and uid = "''alice''" and rq = demo_request]
    apply_custom_protocol_access [where st = state_vault and pid = "''alice_vault_one''"
      and uid = "''bob''" and rq = "demo_request\<lparr>j_data := Some ''hello''\<rparr>"
      and b = False and p = "\<lparr>p_id = ''alice_vault_one'', p_name = ''Vault One'', p_encryption_algorithm = ''AES'',
             p_key_length = 256, p_authentication_method = ''OAuth 2.0'',
             p_bypass_security = False, p_user_id = ''alice'', p_created_at = 500000\<rparr>"]
    apply_custom_protocol_access [where st = state_vault and pid = "''alice_vault_one''"
      and uid = "''alice''" and rq = "demo_request\<lparr>j_data := Some ''hello''\<rparr>"
      and d = "''hello''" and p = "\<lparr>p_id = ''alice_vault_one'', p_name = ''Vault One'', p_encryption_algorithm = ''AES'',
             p_key_length = 256, p_authentication_method = ''OAuth 2.0'',
             p_bypass_security = False, p_user_id = ''alice'', p_created_at = 500000\<rparr>"]
    apply_custom_protocol_access [where st = state_vault and pid = "''alice_vault_one''"
      and uid = "''alice''" and rq = demo_request and p = "\<lparr>p_id = ''alice_vault_one'', p_name = ''Vault One'', p_encryption_algorithm = ''AES'',
             p_key_length = 256, p_authentication_method = ''OAuth 2.0'',
             p_bypass_security = False, p_user_id = ''alice'', p_created_at = 500000\<rparr>"]
  by (simp add: state_vault_protocols str_int_256 demo_request_def)

text \<open>
  C2, as stated, fails: after \<open>alice\<close> has created the protocol \<open>Vault One\<close>, her second
  create with the same name and another algorithm is answered 200, and the registry then
  holds the new record under the same id.
\<close>

theorem create_twice_counterexample:
  "map_option p_encryption_algorithm (custom_protocols state_vault ''alice_vault_one'') = Some ''AES''
   \<and> snd (fst (create_custom_protocol ''alice''
         (vault_request\<lparr>j_encryption_algorithm := Some ''ROT13''\<rparr>) state_vault)) = 200
   \<and> map_option p_encryption_algorithm
        (custom_protocols (snd (create_custom_protocol ''alice''
           (vault_request\<lparr>j_encryption_algorithm := Some ''ROT13''\<rparr>) state_vault))
           ''alice_vault_one'') = Some ''ROT13''"
  by (simp add: state_vault_protocols create_custom_protocol_def vault_request_def
      demo_request_def Let_def get_or_def protocol_id_vault log_security_event_def)

text \<open>
  C2, amended. When the registry already holds a protocol under the id of this owner and
  name, a create call with that owner and name succeeds (200) and stores the record built
  from this request under the id, in place of the one that was there; no other id of the
  registry changes.
\<close>

theorem create_custom_protocol_replaces:
  "custom_protocols st (protocol_id_of uid n) = Some old \<and> j_name rq = Some n \<and> n \<noteq> [] \<longrightarrow>
     fst (create_custom_protocol uid rq st) =
       ([(''protocol_id'', JStr (protocol_id_of uid n)),
         (''protocol'', JProtocol
            \<lparr>p_id = protocol_id_of uid n, p_name = n,
             p_encryption_algorithm = get_or (j_encryption_algorithm rq) ''AES'',
             p_key_length = get_or (j_key_length rq) 256,
             p_authentication_method = get_or (j_authentication_method rq) ''OAuth 2.0'',
             p_bypass_security = get_or (j_bypass_security rq) False,
             p_user_id = uid, p_created_at = now rq\<rparr>),
         (''status'', JStr ''success'')], 200)
     \<and> custom_protocols (snd (create_custom_protocol uid rq st)) =
         (custom_protocols st)(protocol_id_of uid n \<mapsto>
            \<lparr>p_id = protocol_id_of uid n, p_name = n,
             p_encryption_algorithm = get_or (j_encryption_algorithm rq) ''AES'',
             p_key_length = get_or (j_key_length rq) 256,
             p_authentication_method = get_or (j_authentication_method rq) ''OAuth 2.0'',
             p_bypass_security = get_or (j_bypass_security rq) False,
             p_user_id = uid, p_created_at = now rq\<rparr>)"
  by (simp add: create_custom_protocol_def Let_def get_or_def log_security_event_def)

theorem create_custom_protocol_replaces_witness:
  "snd (fst (create_custom_protocol ''alice''
      (vault_request\<lparr>j_encryption_algorithm := Some ''ROT13'', now := 900000\<rparr>) state_vault)) = 200
   \<and> custom_protocols (snd (create_custom_protocol ''alice''
        (vault_request\<lparr>j_encryption_algorithm := Some ''ROT13'', now := 900000\<rparr>) state_vault))
        ''alice_vault_one''
      = Some \<lparr>p_id = ''alice_vault_one'', p_name = ''Vault One'',
              p_encryption_algorithm = ''ROT13'', p_key_length = 256,
              p_authentication_method = ''OAuth 2.0'', p_bypass_security = False,
              p_user_id = ''alice'', p_created_at = 900000\<rparr>"
  using create_custom_protocol_replaces [where st = state_vault and uid = "''alice''"
      and n = "''Vault One''"
      and rq = "vault_request\<lparr>j_encryption_algorithm := Some ''ROT13'', now := 900000\<rparr>"
      and old = "\<lparr>p_id = ''alice_vault_one'', p_name = ''Vault One'',
              p_encryption_algorithm = ''AES'', p_key_length = 256,
              p_authentication_method = ''OAuth 2.0'', p_bypass_security = False,
              p_user_id = ''alice'', p_created_at = 500000\<rparr>"]
  by (simp add: state_vault_protocols protocol_id_vault vault_request_def demo_request_def
      get_or_def)

subsection \<open>Tokens\<close>

lemma timegm_hours: "timegm (t + hours 24) = timegm t + 86400"
  by (simp add: timegm_def hours_def)

lemma timegm_bounds: "timegm t * 1000000 \<le> t \<and> t < timegm t * 1000000 + 1000000"
proof -
  have "t = t div 1000000 * 1000000 + t mod 1000000" by simp
  moreover have "0 \<le> t mod 1000000" by simp
  moreover have "t mod 1000000 < 1000000" by simp
  ultimately show ?thesis unfolding timegm_def by linarith
qed

lemma timegm_less_iff: "(timegm t < k) = (t < k * 1000000)"
  using timegm_bounds [of t] by (cases "timegm t < k") linarith+

lemma timegm_exact: "t mod 1000000 = 0 \<Longrightarrow> timegm t * 1000000 = t"
  unfolding timegm_def by auto

lemma generate_issued: "generate_jwt_token E t uid = jwt_encode E (issued t uid) (JWT_SECRET E)"
  by (simp add: generate_jwt_token_def issued_def)

lemma decode_issued:
  assumes "jwt_roundtrip E (issued T uid)"
  shows "jwt_decode E T' (generate_jwt_token E T uid) (JWT_SECRET E) =
           (if T' < timegm T * 1000000 then Inl ImmatureSignatureError
            else if (timegm T + 86400) * 1000000 \<le> T' then Inl ExpiredSignatureError
            else Inr (issued T uid))"
proof -
  have s: "jwt_split E (generate_jwt_token E T uid) =
             Some (issued T uid, hs256 E (JWT_SECRET E) (issued T uid))"
    using assms by (simp add: jwt_roundtrip_def generate_issued)
  have e: "c_exp (issued T uid) = timegm T + 86400" "c_iat (issued T uid) = timegm T"
    by (simp_all add: issued_def timegm_hours)
  show ?thesis
    unfolding jwt_decode_def s by (simp add: e)
qed

lemma verify_issued:
  assumes "jwt_roundtrip E (issued T uid)" "T \<le> T'"
  shows "verify_jwt_token E T' (generate_jwt_token E T uid) =
           (if T' < (timegm T + 86400) * 1000000 then Some uid else None)"
proof -
  have "\<not> T' < timegm T * 1000000" using timegm_bounds [of T] assms(2) by linarith
  then show ?thesis
    unfolding verify_jwt_token_def decode_issued [OF assms(1)]
    by (simp add: issued_def)
qed

lemma verify_error:
  "jwt_decode E T' tok (JWT_SECRET E) = Inl err \<Longrightarrow> verify_jwt_token E T' tok = None"
  by (cases err) (simp_all add: verify_jwt_token_def)

lemma decode_malformed:
  "jwt_split E tok = None \<Longrightarrow> jwt_decode E T' tok key = Inl DecodeError"
  by (simp add: jwt_decode_def)

lemma decode_bad_signature:
  "jwt_split E tok = Some (pl, sg) \<Longrightarrow> sg \<noteq> hs256 E key pl \<Longrightarrow>
     jwt_decode E T' tok key = Inl InvalidSignatureError"
  by (simp add: jwt_decode_def)

lemma demo_issue: "generate_jwt_token demo_env 500000 ''alice'' = ''alice.jwt-secret:alice''"
  by (simp add: generate_jwt_token_def jwt_encode_def demo_env_def)

lemma demo_roundtrip: "jwt_roundtrip demo_env (issued 500000 ''alice'')"
  by (simp add: jwt_roundtrip_def issued_def jwt_encode_def demo_env_def timegm_def hours_def)

lemma demo_split:
  "jwt_split demo_env ''not-a-token'' = None"
  "jwt_split demo_env ''alice.forged'' =
     Some (\<lparr>c_user_id = ''alice'', c_exp = 86400, c_iat = 0\<rparr>, ''forged'')"
  "jwt_split demo_env ''alice.jwt-secret:alice'' =
     Some (\<lparr>c_user_id = ''alice'', c_exp = 86400, c_iat = 0\<rparr>, ''jwt-secret:alice'')"
  "hs256 demo_env (JWT_SECRET demo_env) \<lparr>c_user_id = ''alice'', c_exp = 86400, c_iat = 0\<rparr>
     = ''jwt-secret:alice''"
  by (simp_all add: demo_env_def)

lemma timegm_500000: "timegm 500000 = 0"
  by (simp add: timegm_def)

text \<open>
  C4, as stated, fails twice. An expired token and a token with a forged signature are
  told apart by \<open>jwt.decode\<close>, but \<open>verify_jwt_token\<close> answers \<open>None\<close> for both: there is
  no distinct Expired or Invalid result. And the expiry is kept in whole seconds: the
  token issued at 0.5 s expires at 86400 s, so the check at 86400.2 s, which is before
  issue time plus 24 hours, already fails.
\<close>

theorem verify_jwt_token_counterexample:
  "jwt_decode demo_env 86400500000 (generate_jwt_token demo_env 500000 ''alice'') (JWT_SECRET demo_env)
     = Inl ExpiredSignatureError
   \<and> jwt_decode demo_env 86400500000 ''alice.forged'' (JWT_SECRET demo_env) = Inl InvalidSignatureError
   \<and> verify_jwt_token demo_env 86400500000 (generate_jwt_token demo_env 500000 ''alice'') = None
   \<and> verify_jwt_token demo_env 86400500000 ''alice.forged'' = None
   \<and> (500000::int) \<le> 86400200000 \<and> (86400200000::int) < 500000 + hours 24
   \<and> verify_jwt_token demo_env 86400200000 (generate_jwt_token demo_env 500000 ''alice'') = None"
  by (simp add: demo_issue verify_jwt_token_def jwt_decode_def demo_split hours_def)

text \<open>
  C4, amended. For a token issued at time \<open>T\<close> for a user id (the library parsing what it
  serialised) and a check at time \<open>T' \<ge> T\<close>, \<open>verify_jwt_token\<close> returns that user id
  exactly when \<open>T'\<close> is before \<open>T\<close> truncated to the second plus 24 hours: for every
  \<open>T' < T + 24h\<close> when \<open>T\<close> is a whole second, and never for \<open>T' \<ge> T + 24h\<close>. It returns
  \<open>None\<close> for a token that does not parse, for one whose signature does not match its
  claim set, and for every other error of \<open>jwt.decode\<close>: the same \<open>None\<close> as for an
  expired token.
\<close>

theorem verify_jwt_token_lifetime:
  "(jwt_roundtrip E (issued T uid) \<and> T \<le> T' \<longrightarrow>
      verify_jwt_token E T' (generate_jwt_token E T uid) =
        (if T' < (timegm T + 86400) * 1000000 then Some uid else None)
      \<and> (T mod 1000000 = 0 \<and> T' < T + hours 24 \<longrightarrow>
           verify_jwt_token E T' (generate_jwt_token E T uid) = Some uid)
      \<and> (T + hours 24 \<le> T' \<longrightarrow>
           verify_jwt_token E T' (generate_jwt_token E T uid) = None))
   \<and> (jwt_split E tok = None \<longrightarrow> verify_jwt_token E T' tok = None)
   \<and> (jwt_split E tok = Some (pl, sg) \<and> sg \<noteq> hs256 E (JWT_SECRET E) pl \<longrightarrow>
        verify_jwt_token E T' tok = None)
   \<and> (jwt_decode E T' tok (JWT_SECRET E) = Inl err \<longrightarrow> verify_jwt_token E T' tok = None)"
proof -
  have a: "T mod 1000000 = 0 \<Longrightarrow> T' < T + hours 24 \<Longrightarrow> T' < (timegm T + 86400) * 1000000"
    using timegm_exact [of T] by (simp add: hours_def)
  have b: "T + hours 24 \<le> T' \<Longrightarrow> \<not> T' < (timegm T + 86400) * 1000000"
    using timegm_bounds [of T] by (simp add: hours_def)
  have c: "jwt_split E tok = None \<Longrightarrow> verify_jwt_token E T' tok = None"
    using decode_malformed verify_error by blast
  have d: "jwt_split E tok = Some (pl, sg) \<Longrightarrow> sg \<noteq> hs256 E (JWT_SECRET E) pl \<Longrightarrow>
             verify_jwt_token E T' tok = None"
    using decode_bad_signature verify_error by blast
  show ?thesis
    using a b c d verify_error [of E T' tok err] verify_issued [of E T uid T']
    by simp
qed

theorem verify_jwt_token_lifetime_witness:
  "verify_jwt_token demo_env 86399999999 (generate_jwt_token demo_env 500000 ''alice'') = Some ''alice''
   \<and> verify_jwt_token demo_env 86400500000 (generate_jwt_token demo_env 500000 ''alice'') = None
   \<and> verify_jwt_token demo_env 600000 ''not-a-token'' = None
   \<and> verify_jwt_token demo_env 600000 ''alice.forged'' = None"
  using
    verify_jwt_token_lifetime [where E = demo_env and T = 500000 and T' = 86399999999
      and uid = "''alice''" and tok = "''not-a-token''"]
    verify_jwt_token_lifetime [where E = demo_env and T = 500000 and T' = 86400500000
      and uid = "''alice''" and tok = "''not-a-token''"]
    verify_jwt_token_lifetime [where E = demo_env and T = 500000 and T' = 600000
      and uid = "''alice''" and tok = "''not-a-token''"]
    verify_jwt_token_lifetime [where E = demo_env and T = 500000 and T' = 600000
      and uid = "''alice''" and tok = "''alice.forged''"
      and pl = "\<lparr>c_user_id = ''alice'', c_exp = 86400, c_iat = 0\<rparr>" and sg = "''forged''"]
  by (simp add: demo_roundtrip demo_split timegm_500000 hours_def)

subsection \<open>The decorator\<close>

lemma require_auth_missing:
  "authorization rq = None \<or> authorization rq = Some [] \<Longrightarrow>
     require_auth E f rq st =
       (error_response ''Authentication required'' 401,
        log_security_event rq unauthorized_access None [(''reason'', DStr ''no_token'')] st)"
  by (auto simp add: require_auth_def get_or_def)

lemma require_auth_error:
  "authorization rq = Some h \<Longrightarrow> h \<noteq> [] \<Longrightarrow>
   jwt_decode E (now rq) (if startswith h ''Bearer '' then drop 7 h else h) (JWT_SECRET E) = Inl err \<Longrightarrow>
     require_auth E f rq st =
       (error_response ''Invalid token'' 401,
        log_security_event rq unauthorized_access None [(''reason'', DStr ''invalid_token'')] st)"
  by (cases err) (simp_all add: require_auth_def get_or_def verify_jwt_token_def Let_def)

lemma require_auth_decoded:
  "authorization rq = Some h \<Longrightarrow> h \<noteq> [] \<Longrightarrow>
   jwt_decode E (now rq) (if startswith h ''Bearer '' then drop 7 h else h) (JWT_SECRET E) = Inr pl \<Longrightarrow>
     require_auth E f rq st =
       (if c_user_id pl = [] then
          (error_response ''Invalid token'' 401,
           log_security_event rq unauthorized_access None [(''reason'', DStr ''invalid_token'')] st)
        else f (c_user_id pl) rq st)"
  by (simp add: require_auth_def get_or_def verify_jwt_token_def Let_def)

lemma demo_decode:
  "jwt_decode demo_env 600000 ''alice.jwt-secret:alice'' (JWT_SECRET demo_env)
     = Inr \<lparr>c_user_id = ''alice'', c_exp = 86400, c_iat = 0\<rparr>"
  "jwt_decode demo_env 86400500000 ''alice.jwt-secret:alice'' (JWT_SECRET demo_env)
     = Inl ExpiredSignatureError"
  "jwt_decode demo_env 86400500000 ''alice.forged'' (JWT_SECRET demo_env)
     = Inl InvalidSignatureError"
  "jwt_decode demo_env 600000 ''.jwt-secret:'' (JWT_SECRET demo_env)
     = Inr \<lparr>c_user_id = [], c_exp = 86400, c_iat = 0\<rparr>"
  by (simp_all add: jwt_decode_def demo_env_def)

lemma bearer_prefix:
  "startswith ''Bearer alice.jwt-secret:alice'' ''Bearer ''"
  "startswith ''Bearer alice.forged'' ''Bearer ''"
  "startswith ''Bearer .jwt-secret:'' ''Bearer ''"
  by (simp_all add: startswith_def)

text \<open>
  C7, as stated, fails: the audit event does not tell an expired token from an invalid
  one. \<open>jwt.decode\<close> raises \<open>ExpiredSignatureError\<close> for the one and
  \<open>InvalidSignatureError\<close> for the other, and the decorator logs the reason
  \<open>invalid_token\<close> for both; the two requests leave the same response and the same log.
\<close>

theorem require_auth_reason_counterexample:
  "jwt_decode demo_env 86400500000 ''alice.jwt-secret:alice'' (JWT_SECRET demo_env)
     = Inl ExpiredSignatureError
   \<and> jwt_decode demo_env 86400500000 ''alice.forged'' (JWT_SECRET demo_env)
     = Inl InvalidSignatureError
   \<and> map e_details (security_logs (snd (require_auth demo_env get_security_logs
        (demo_request\<lparr>authorization := Some ''Bearer alice.jwt-secret:alice'', now := 86400500000\<rparr>)
        demo_state))) = [[(''reason'', DStr ''invalid_token'')]]
   \<and> map e_details (security_logs (snd (require_auth demo_env get_security_logs
        (demo_request\<lparr>authorization := Some ''Bearer alice.forged'', now := 86400500000\<rparr>)
        demo_state))) = [[(''reason'', DStr ''invalid_token'')]]
   \<and> require_auth demo_env get_security_logs
        (demo_request\<lparr>authorization := Some ''Bearer alice.jwt-secret:alice'', now := 86400500000\<rparr>)
        demo_state
     = require_auth demo_env get_security_logs
        (demo_request\<lparr>authorization := Some ''Bearer alice.forged'', now := 86400500000\<rparr>)
        demo_state"
  by (simp add: demo_decode bearer_prefix require_auth_def verify_jwt_token_def get_or_def
      Let_def demo_request_def demo_state_def log_security_event_def)

text \<open>
  C7, amended. A request with no \<open>Authorization\<close> header, or an empty one, is answered
  401 and one \<open>unauthorized_access\<close> event with reason \<open>no_token\<close> is logged. A request
  whose token (the header, without a leading \<open>Bearer \<close>) makes \<open>jwt.decode\<close> raise any
  error, expired or invalid, or decodes to an empty user id, is answered 401 and one
  \<open>unauthorized_access\<close> event with reason \<open>invalid_token\<close> is logged. In these cases the
  result is the same for every wrapped handler: the handler is not run. Only when the
  token decodes to a non-empty user id is the result that of the handler, called with
  that user id.
\<close>

theorem require_auth_gate:
  "(authorization rq = None \<or> authorization rq = Some [] \<longrightarrow>
      require_auth E f rq st =
        (error_response ''Authentication required'' 401,
         log_security_event rq unauthorized_access None [(''reason'', DStr ''no_token'')] st)
      \<and> require_auth E f rq st = require_auth E g rq st)
   \<and> (authorization rq = Some h \<and> h \<noteq> []
       \<and> jwt_decode E (now rq) (if startswith h ''Bearer '' then drop 7 h else h) (JWT_SECRET E)
           = Inl err \<longrightarrow>
      require_auth E f rq st =
        (error_response ''Invalid token'' 401,
         log_security_event rq unauthorized_access None [(''reason'', DStr ''invalid_token'')] st)
      \<and> require_auth E f rq st = require_auth E g rq st)
   \<and> (authorization rq = Some h \<and> h \<noteq> []
       \<and> jwt_decode E (now rq) (if startswith h ''Bearer '' then drop 7 h else h) (JWT_SECRET E)
           = Inr pl \<and> c_user_id pl = [] \<longrightarrow>
      require_auth E f rq st =
        (error_response ''Invalid token'' 401,
         log_security_event rq unauthorized_access None [(''reason'', DStr ''invalid_token'')] st)
      \<and> require_auth E f rq st = require_auth E g rq st)
   \<and> (authorization rq = Some h \<and> h \<noteq> []
       \<and> jwt_decode E (now rq) (if startswith h ''Bearer '' then drop 7 h else h) (JWT_SECRET E)
           = Inr pl \<and> c_user_id pl \<noteq> [] \<longrightarrow>
      require_auth E f rq st = f (c_user_id pl) rq st)"
proof -
  have a: "authorization rq = None \<or> authorization rq = Some [] \<Longrightarrow>
             require_auth E f rq st = require_auth E g rq st"
    using require_auth_missing [of rq E f st] require_auth_missing [of rq E g st] by simp
  have b: "authorization rq = Some h \<Longrightarrow> h \<noteq> [] \<Longrightarrow>
           jwt_decode E (now rq) (if startswith h ''Bearer '' then drop 7 h else h) (JWT_SECRET E)
             = Inl err \<Longrightarrow> require_auth E f rq st = require_auth E g rq st"
    using require_auth_error [of rq h E err f st] require_auth_error [of rq h E err g st]
    by simp
  have c: "authorization rq = Some h \<Longrightarrow> h \<noteq> [] \<Longrightarrow>
           jwt_decode E (now rq) (if startswith h ''Bearer '' then drop 7 h else h) (JWT_SECRET E)
             = Inr pl \<Longrightarrow> c_user_id pl = [] \<Longrightarrow>
           require_auth E f rq st = require_auth E g rq st"
    using require_auth_decoded [of rq h E pl f st] require_auth_decoded [of rq h E pl g st]
    by simp
  have d: "authorization rq = Some h \<Longrightarrow> h \<noteq> [] \<Longrightarrow>
           jwt_decode E (now rq) (if startswith h ''Bearer '' then drop 7 h else h) (JWT_SECRET E)
             = Inr pl \<Longrightarrow> c_user_id pl = [] \<Longrightarrow>
           require_auth E f rq st =
             (error_response ''Invalid token'' 401,
              log_security_event rq unauthorized_access None
                [(''reason'', DStr ''invalid_token'')] st)"
    using require_auth_decoded [of rq h E pl f st] by simp
  have e: "authorization rq = Some h \<Longrightarrow> h \<noteq> [] \<Longrightarrow>
           jwt_decode E (now rq) (if startswith h ''Bearer '' then drop 7 h else h) (JWT_SECRET E)
             = Inr pl \<Longrightarrow> c_user_id pl \<noteq> [] \<Longrightarrow>
           require_auth E f rq st = f (c_user_id pl) rq st"
    using require_auth_decoded [of rq h E pl f st] by simp
  show ?thesis
  proof (intro conjI impI)
    assume "authorization rq = None \<or> authorization rq = Some []"
    then show "require_auth E f rq st =
        (error_response ''Authentication required'' 401,
         log_security_event rq unauthorized_access None [(''reason'', DStr ''no_token'')] st)"
      and "require_auth E f rq st = require_auth E g rq st"
      by (rule require_auth_missing, rule a)
  next
    assume h: "authorization rq = Some h \<and> h \<noteq> []
       \<and> jwt_decode E (now rq) (if startswith h ''Bearer '' then drop 7 h else h) (JWT_SECRET E)
           = Inl err"
    then show "require_auth E f rq st =
        (error_response ''Invalid token'' 401,
         log_security_event rq unauthorized_access None [(''reason'', DStr ''invalid_token'')] st)"
      using require_auth_error [of rq h E err f st] by simp
    from h show "require_auth E f rq st = require_auth E g rq st"
      using b by simp
  next
    assume h: "authorization rq = Some h \<and> h \<noteq> []
       \<and> jwt_decode E (now rq) (if startswith h ''Bearer '' then drop 7 h else h) (JWT_SECRET E)
           = Inr pl \<and> c_user_id pl = []"
    then show "require_auth E f rq st =
        (error_response ''Invalid token'' 401,
         log_security_event rq unauthorized_access None [(''reason'', DStr ''invalid_token'')] st)"
      using d by simp
    from h show "require_auth E f rq st = require_auth E g rq st"
      using c by simp
  next
    assume "authorization rq = Some h \<and> h \<noteq> []
       \<and> jwt_decode E (now rq) (if startswith h ''Bearer '' then drop 7 h else h) (JWT_SECRET E)
           = Inr pl \<and> c_user_id pl \<noteq> []"
    then show "require_auth E f rq st = f (c_user_id pl) rq st"
      using e by simp
  qed
qed

theorem require_auth_gate_witness:
  "require_auth demo_env get_security_logs demo_request state_alice =
     (error_response ''Authentication required'' 401,
      log_security_event demo_request unauthorized_access None
        [(''reason'', DStr ''no_token'')] state_alice)
   \<and> require_auth demo_env get_security_logs
        (demo_request\<lparr>authorization := Some ''Bearer alice.jwt-secret:alice'', now := 86400500000\<rparr>)
        state_alice =
     (error_response ''Invalid token'' 401,
      log_security_event (demo_request\<lparr>now := 86400500000\<rparr>) unauthorized_access None
        [(''reason'', DStr ''invalid_token'')] state_alice)
   \<and> require_auth demo_env get_security_logs
        (demo_request\<lparr>authorization := Some ''Bearer .jwt-secret:'', now := 600000\<rparr>)
        state_alice =
     (error_response ''Invalid token'' 401,
      log_security_event (demo_request\<lparr>now := 600000\<rparr>) unauthorized_access None
        [(''reason'', DStr ''invalid_token'')] state_alice)
   \<and> require_auth demo_env get_security_logs
        (demo_request\<lparr>authorization := Some ''Bearer alice.jwt-secret:alice'', now := 600000\<rparr>)
        state_alice =
     get_security_logs ''alice''
        (demo_request\<lparr>authorization := Some ''Bearer alice.jwt-secret:alice'', now := 600000\<rparr>)
        state_alice"
  using
    require_auth_gate [where E = demo_env and f = get_security_logs and rq = demo_request
      and st = state_alice]
    require_auth_gate [where E = demo_env and f = get_security_logs
      and rq = "demo_request\<lparr>authorization := Some ''Bearer alice.jwt-secret:alice'',
                              now := 86400500000\<rparr>"
      and st = state_alice and h = "''Bearer alice.jwt-secret:alice''"
      and err = ExpiredSignatureError]
    require_auth_gate [where E = demo_env and f = get_security_logs
      and rq = "demo_request\<lparr>authorization := Some ''Bearer .jwt-secret:'', now := 600000\<rparr>"
      and st = state_alice and h = "''Bearer .jwt-secret:''"
      and pl = "\<lparr>c_user_id = [], c_exp = 86400, c_iat = 0\<rparr>"]
    require_auth_gate [where E = demo_env and f = get_security_logs
      and rq = "demo_request\<lparr>authorization := Some ''Bearer alice.jwt-secret:alice'',
                              now := 600000\<rparr>"
      and st = state_alice and h = "''Bearer alice.jwt-secret:alice''"
      and pl = "\<lparr>c_user_id = ''alice'', c_exp = 86400, c_iat = 0\<rparr>"]
  by (simp add: demo_decode bearer_prefix demo_request_def log_security_event_def)

subsection \<open>Credentials\<close>

lemma state_alice_users:
  "users_db state_alice =
     [''alice'' \<mapsto> \<lparr>u_username = ''alice'', u_password_hash = ''$$Secr3t!'',
                     u_email = ''a@x.com'', u_created_at = 500000, u_is_active = True\<rparr>]"
  by (simp add: state_alice_def alice_register_def demo_request_def demo_state_def demo_env_def
      register_def log_security_event_def Let_def get_or_def truthy_def encode_utf8_def)

lemma users_db_log [simp]:
  "users_db (log_security_event rq et x det st) = users_db st"
  by (simp add: log_security_event_def)

lemma authenticate_user_log [simp]:
  "authenticate_user E (log_security_event rq et x det st) u pw = authenticate_user E st u pw"
  by (simp add: authenticate_user_def)

text \<open>The answers of \<open>login\<close> to a request that has a username and a password.\<close>

lemma login_cases:
  assumes "j_username rq = Some u" "j_password rq = Some pw" "u \<noteq> []" "truthy pw"
  shows "login E rq st =
    (case authenticate_user E st u pw of
       Inl e \<Rightarrow>
         (error_response (str_exception e) 500,
          log_security_event rq login_attempt (Some u) [] st)
     | Inr None \<Rightarrow>
         (error_response ''Invalid credentials'' 401,
          login_failed rq u ''invalid_credentials'' st)
     | Inr (Some usr) \<Rightarrow>
         if \<not> u_is_active usr then
           (error_response ''Account disabled'' 403, login_failed rq u ''account_disabled'' st)
         else
           (([(''message'', JStr ''Login successful''),
              (''token'', JStr (generate_jwt_token E (now rq) u)),
              (''user'', JObj [(''username'', JStr u), (''email'', JStr (u_email usr))]),
              (''status'', JStr ''success'')], 200),
            log_security_event rq login_success (Some u) []
              (log_security_event rq login_attempt (Some u) [] st)))"
  using assms
  by (simp add: login_def get_or_def Let_def login_failed_def split: sum.splits option.splits)

lemma login_absent:
  assumes "j_username rq = Some u" "j_password rq = Some pw" "u \<noteq> []" "truthy pw"
    and "users_db st u = None"
  shows "login E rq st =
           (error_response ''Invalid credentials'' 401,
            login_failed rq u ''invalid_credentials'' st)"
  using assms(5) by (simp add: login_cases [OF assms(1-4)] authenticate_user_def)

lemma login_wrong_password:
  assumes "j_username rq = Some u" "j_password rq = Some pw" "u \<noteq> []" "truthy pw"
    and "users_db st u = Some usr" "encode_utf8 pw = Inr bytes"
    and "bcrypt_checkpw E bytes (u_password_hash usr) = Inr False"
  shows "login E rq st =
           (error_response ''Invalid credentials'' 401,
            login_failed rq u ''invalid_credentials'' st)"
  using assms(5-7) by (simp add: login_cases [OF assms(1-4)] authenticate_user_def)

lemma login_accepts:
  assumes "j_username rq = Some u" "j_password rq = Some pw" "u \<noteq> []" "truthy pw"
    and "users_db st u = Some usr" "encode_utf8 pw = Inr bytes"
    and "bcrypt_checkpw E bytes (u_password_hash usr) = Inr True"
  shows "fst (login E rq st) =
           (if \<not> u_is_active usr then error_response ''Account disabled'' 403
            else ([(''message'', JStr ''Login successful''),
                   (''token'', JStr (generate_jwt_token E (now rq) u)),
                   (''user'', JObj [(''username'', JStr u), (''email'', JStr (u_email usr))]),
                   (''status'', JStr ''success'')], 200))"
  using assms(5-7) by (simp add: login_cases [OF assms(1-4)] authenticate_user_def)

lemma login_raises:
  assumes "j_username rq = Some u" "j_password rq = Some pw" "u \<noteq> []" "truthy pw"
    and "users_db st u = Some usr" "encode_utf8 pw = Inl e"
  shows "login E rq st =
           (error_response (str_exception e) 500,
            log_security_event rq login_attempt (Some u) [] st)"
  using assms(5-6) by (simp add: login_cases [OF assms(1-4)] authenticate_user_def)

text \<open>A 200 answer is given only to a present, active user whose password matches.\<close>

lemma login_status:
  "snd (fst (login E rq st)) = 200 \<Longrightarrow>
     \<exists>usr bytes. users_db st (get_or (j_username rq) []) = Some usr \<and> u_is_active usr
       \<and> encode_utf8 (get_or (j_password rq) (Str [])) = Inr bytes
       \<and> bcrypt_checkpw E bytes (u_password_hash usr) = Inr True"
  by (auto simp add: login_def Let_def error_response_def authenticate_user_def
      split: option.splits if_splits sum.splits)

lemma login_request_fields:
  "j_username (login_request u pw) = Some u"
  "j_password (login_request u pw) = Some pw"
  "now (login_request u pw) = 500000"
  by (simp_all add: login_request_def demo_request_def)

lemma demo_users:
  "users_db state_alice ''alice'' = Some user_alice"
  "users_db demo_state ''alice'' = None"
  by (simp_all add: state_alice_users demo_state_def user_alice_def)

text \<open>
  C3 says that every failed verification returns none and that an absent user and a
  wrong password get one and the same answer. \<open>authenticate_user\<close> encodes and checks the
  password only when the user exists, and \<open>login\<close> turns what that raises into a 500
  answer. So a request for \<open>alice\<close> whose password is the JSON number 1, or the string
  holding a lone surrogate, is answered 401 \<open>Invalid credentials\<close> while no user \<open>alice\<close>
  exists and 500 once she is registered: the answer tells whether the username exists.
\<close>

theorem login_enumeration:
  "fst (login demo_env (login_request ''alice'' (Num 1)) demo_state)
     = error_response ''Invalid credentials'' 401
   \<and> fst (login demo_env (login_request ''alice'' (Num 1)) state_alice)
     = error_response (str_exception AttributeError) 500
   \<and> fst (login demo_env (login_request ''alice'' Surrogate) demo_state)
     = error_response ''Invalid credentials'' 401
   \<and> fst (login demo_env (login_request ''alice'' Surrogate) state_alice)
     = error_response (str_exception UnicodeEncodeError) 500"
proof -
  have t: "truthy (Num 1)" "truthy Surrogate"
    by (simp_all add: truthy_def)
  have e: "encode_utf8 (Num 1) = Inl AttributeError" "encode_utf8 Surrogate = Inl UnicodeEncodeError"
    by (simp_all add: encode_utf8_def)
  show ?thesis
    by (simp add: login_absent [OF login_request_fields(1,2) _ _ demo_users(2)]
        login_raises [OF login_request_fields(1,2) _ _ demo_users(1)] t e)
qed

subsection \<open>Registration\<close>

text \<open>The two steps, run back to back, are the handler.\<close>

lemma register_phases:
  "register E rq st =
     (case register_check rq st of Some r \<Rightarrow> (r, st) | None \<Rightarrow> register_insert E rq st)"
  by (simp add: register_def register_check_def register_insert_def Let_def)

lemma step_twice:
  assumes "i < length cs" "i < length rqs" "cs ! i = Start"
  shows "step E rqs i (step E rqs i (cs, st)) =
           (cs[i := Finished (fst (register E (rqs ! i) st))], snd (register E (rqs ! i) st))"
  using assms by (simp add: step_def register_phases Let_def split: option.splits)

lemma register_first:
  assumes "registers E u rq" "users_db st u = None"
  shows "fst (register E rq st) = registered u"
    and "users_db (snd (register E rq st)) u \<noteq> None"
  using assms
  by (auto simp add: registers_def register_def registered_def Let_def get_or_def
      log_security_event_def truthy_def encode_utf8_def split: jvalue.splits sum.splits)

lemma register_again:
  assumes "registers E u rq" "users_db st u \<noteq> None"
  shows "register E rq st = (error_response ''Username already exists'' 409, st)"
  using assms
  by (auto simp add: registers_def register_def Let_def get_or_def truthy_def
      split: jvalue.splits sum.splits)

lemma one_at_a_time_Suc: "one_at_a_time (Suc k) = one_at_a_time k @ [k, k]"
  by (simp add: one_at_a_time_def)

lemma run_one_at_a_time:
  assumes "list_all (registers E u) rqs" "users_db st u = None" "Suc k \<le> length rqs"
  shows "\<exists>st'. fold (step E rqs) (one_at_a_time (Suc k)) (replicate (length rqs) Start, st) =
            (Finished (registered u)
               # replicate k (Finished (error_response ''Username already exists'' 409))
               @ replicate (length rqs - Suc k) Start, st')
          \<and> users_db st' u \<noteq> None"
  using assms(3)
proof (induction k)
  case 0
  have pos: "0 < length rqs" using 0 by (simp add: Suc_le_eq)
  with assms(1) have r: "registers E u (rqs ! 0)" unfolding list_all_length by blast
  have n: "replicate (length rqs) Start = Start # replicate (length rqs - 1) Start"
    using pos by (cases "length rqs") simp_all
  have "fold (step E rqs) (one_at_a_time (Suc 0)) (replicate (length rqs) Start, st) =
          step E rqs 0 (step E rqs 0 (replicate (length rqs) Start, st))"
    by (simp add: one_at_a_time_def)
  also have "\<dots> = ((replicate (length rqs) Start)[0 := Finished (fst (register E (rqs ! 0) st))],
                   snd (register E (rqs ! 0) st))"
    using pos by (intro step_twice) simp_all
  finally show ?case
    using register_first [OF r assms(2)] n by simp
next
  case (Suc k)
  from Suc.prems have "Suc k \<le> length rqs" by simp
  with Suc.IH obtain st' where
    f: "fold (step E rqs) (one_at_a_time (Suc k)) (replicate (length rqs) Start, st) =
            (Finished (registered u)
               # replicate k (Finished (error_response ''Username already exists'' 409))
               @ replicate (length rqs - Suc k) Start, st')"
    and u: "users_db st' u \<noteq> None"
    by auto
  let ?c = "Finished (error_response ''Username already exists'' 409)"
  let ?cs = "Finished (registered u) # replicate k ?c @ replicate (length rqs - Suc k) Start"
  have lt: "Suc k < length rqs" using Suc.prems by (simp add: Suc_le_eq)
  with assms(1) have r: "registers E u (rqs ! Suc k)" unfolding list_all_length by blast
  have n: "replicate (length rqs - Suc k) Start = Start # replicate (length rqs - Suc (Suc k)) Start"
    using lt by (cases "length rqs - Suc k") simp_all
  have len: "Suc k < length ?cs" using lt by simp
  have nth: "?cs ! Suc k = Start" by (simp add: nth_append n)
  have upd: "?cs[Suc k := ?c] =
               Finished (registered u) # replicate (Suc k) ?c
                 @ replicate (length rqs - Suc (Suc k)) Start"
    by (simp add: list_update_append n replicate_append_same)
  have "fold (step E rqs) (one_at_a_time (Suc (Suc k))) (replicate (length rqs) Start, st) =
          step E rqs (Suc k) (step E rqs (Suc k) (?cs, st'))"
    by (simp add: one_at_a_time_Suc [of "Suc k"] f)
  also have "\<dots> = (?cs[Suc k := Finished (fst (register E (rqs ! Suc k) st'))],
                   snd (register E (rqs ! Suc k) st'))"
    using len lt nth by (intro step_twice) simp_all
  also have "\<dots> = (?cs[Suc k := ?c], st')"
    by (simp add: register_again [OF r u])
  finally show ?case using upd u by simp
qed

text \<open>
  The membership test of the handler does its work when the calls do not overlap: of any
  number of well-formed calls for one free username, each finishing before the next one
  starts, the first is answered 200 and every later one 409.
\<close>

lemma run_sequential:
  assumes "0 < length rqs" "list_all (registers E u) rqs" "users_db st u = None"
  shows "fst (run E rqs (one_at_a_time (length rqs)) st) =
           Finished (registered u)
             # replicate (length rqs - 1) (Finished (error_response ''Username already exists'' 409))"
proof -
  obtain k where k: "length rqs = Suc k" using assms(1) by (cases "length rqs") simp_all
  show ?thesis
    using run_one_at_a_time [OF assms(2) assms(3), of k] k
    by (auto simp add: run_def)
qed

text \<open>
  C8 says that of \<open>M\<close> concurrent \<open>register\<close> calls with one username exactly one succeeds
  and \<open>M - 1\<close> are answered Conflict, check and insertion being one atomic unit. The
  handler tests \<open>username in users_db\<close> and answers 409 when the name is taken, but the
  test and the assignment are separate steps with no lock around them. Two calls for
  \<open>alice\<close>, the second with another password and email: when both pass the test before
  either assigns, both are answered 200, none 409, and the record of the second call
  replaces that of the first. Run one after the other, the same calls give 200 and 409.
\<close>

theorem register_race:
  "fst (run demo_env [alice_register, alice_again] [0, 1, 0, 1] demo_state) =
     [Finished (registered ''alice''), Finished (registered ''alice'')]
   \<and> users_db (snd (run demo_env [alice_register, alice_again] [0, 1, 0, 1] demo_state))
       ''alice'' =
     Some \<lparr>u_username = ''alice'', u_password_hash = ''$$0ther!'', u_email = ''b@y.org'',
           u_created_at = 500000, u_is_active = True\<rparr>
   \<and> fst (run demo_env [alice_register, alice_again] [0, 0, 1, 1] demo_state) =
     [Finished (registered ''alice''),
      Finished (error_response ''Username already exists'' 409)]"
  by (simp add: run_def step_def register_check_def register_insert_def Let_def
      alice_register_def alice_again_def demo_request_def demo_state_def demo_env_def
      get_or_def log_security_event_def registered_def truthy_def encode_utf8_def)

end
